theory Spec2Isabelle
  imports Complex_Main
begin

section \<open>JSON values and Python dictionaries\<close>

text \<open>
  The library passes JSON-compatible Python values around: \<open>None\<close>, booleans, numbers,
  strings, lists and dictionaries with string keys. A dictionary is a finite map; two
  dictionaries are equal when they hold the same keys with the same values, whatever the
  insertion order, which is equality of maps. Strings are byte strings (ASCII).
\<close>

datatype json =
    JNone
  | JBool bool
  | JNum real
  | JStr string
  | JList "json list"
  | JDict "string \<Rightarrow> json option"

type_synonym dict = "string \<rightharpoonup> json"

section \<open>constants.py\<close>

definition ROOT :: string where
  "ROOT = ''archivist''"

definition SEP :: string where
  "SEP = ''/''"

definition HEADERS_RETRY_AFTER :: string where
  "HEADERS_RETRY_AFTER = ''Archivist-Rate-Limit-Reset''"

definition CONFIRMATION_STATUS :: string where
  "CONFIRMATION_STATUS = ''confirmation_status''"

definition CONFIRMATION_PENDING :: string where
  "CONFIRMATION_PENDING = ''PENDING''"

definition CONFIRMATION_FAILED :: string where
  "CONFIRMATION_FAILED = ''FAILED''"

definition CONFIRMATION_CONFIRMED :: string where
  "CONFIRMATION_CONFIRMED = ''CONFIRMED''"

definition LOCATIONS_SUBPATH :: string where
  "LOCATIONS_SUBPATH = ''v2''"

definition LOCATIONS_LABEL :: string where
  "LOCATIONS_LABEL = ''locations''"

section \<open>HTTP requests, responses and errors\<close>

datatype verb = GET | POST | PATCH | DELETE

text \<open>
  What a request carries as its body: nothing, the \<open>json=\<close> argument, the \<open>data=\<close>
  argument (form-encoded), or the multipart encoder of \<open>post_file\<close> with its single
  field (form name, file contents, MIME type).
\<close>

datatype payload =
    NoBody
  | JsonBody "dict option"
  | FormBody "dict option"
  | MultipartBody "string option" string string

record request =
  rq_verb :: verb
  rq_url :: string
  rq_headers :: "(string \<rightharpoonup> string) option"
  rq_payload :: payload
  rq_verify :: bool
  rq_params :: "dict option"

text \<open>
  A response as the \<open>requests\<close> library hands it over: the status code, the headers,
  the body as \<open>response.json()\<close> reads it (\<open>None\<close> when the body is not JSON) and the time
  the exchange took.
\<close>

record response =
  status_code :: nat
  headers :: "string \<rightharpoonup> string"
  body :: "json option"
  elapsed :: real

text \<open>
  Every exception of the code is a value. \<open>ArchivistError\<close> and \<open>NotFoundError\<close>
  (\<open>ArchivistNotFoundError\<close>; with the response when a status 404 caused it) occur in
  the sources present; the other kinds are the ones the specification lists for the
  transport and the confirmation poller; the last four are Python's own exceptions.
\<close>

datatype error =
    ArchivistError string
  | NotFoundError "response option"
  | RateLimitError response
  | ConstraintViolationError response
  | PermissionError response
  | ServerError response
  | TransportError
  | ConfirmationTimeoutError
  | ConfirmationFailedError json
  | KeyError string
  | TypeError
  | AttributeError
  | JSONDecodeError

type_synonym 'a result = "error + 'a"

section \<open>The environment: clock and network\<close>

text \<open>
  The client talks to a server through its session and reads the wall clock. The server is
  deterministic: its answer is a function of the requests it has received so far and of the
  current one (\<open>None\<close>: the exchange fails at the network level). \<open>sent\<close> logs every
  request handed to the session, \<open>slept\<close> adds up what \<open>sleep\<close> has waited.

  Python's \<open>time()\<close> gives a double, and a sum or a difference of doubles is the exact
  result rounded to a double. A double is modelled as the real it stands for; the
  rounding of the machine is \<open>float_round\<close>, about which nothing is assumed. Comparing
  doubles is comparing the reals.
\<close>

record env =
  now :: real
  slept :: real
  net :: "request list \<Rightarrow> request \<Rightarrow> response option"
  sent :: "request list"
  float_round :: "real \<Rightarrow> real"

definition time :: "env \<Rightarrow> real" where
  "time e = now e"

definition float_add :: "env \<Rightarrow> real \<Rightarrow> real \<Rightarrow> real" where
  "float_add e x y = float_round e (x + y)"

definition float_sub :: "env \<Rightarrow> real \<Rightarrow> real \<Rightarrow> real" where
  "float_sub e x y = float_round e (x - y)"

definition sleep :: "real \<Rightarrow> env \<Rightarrow> env" where
  "sleep d e = e\<lparr>now := now e + d, slept := slept e + d\<rparr>"

definition session_send :: "request \<Rightarrow> env \<Rightarrow> response result \<times> env" where
  "session_send rq e =
     (case net e (sent e) rq of
        None \<Rightarrow> (Inl TransportError, e\<lparr>sent := sent e @ [rq]\<rparr>)
      | Some rs \<Rightarrow> (Inr rs, e\<lparr>now := now e + elapsed rs, sent := sent e @ [rq]\<rparr>))"

section \<open>Python helpers\<close>

text \<open>\<open>str.endswith\<close>.\<close>

definition endswith :: "string \<Rightarrow> string \<Rightarrow> bool" where
  "endswith s suffix =
     (length suffix \<le> length s \<and> drop (length s - length suffix) s = suffix)"

text \<open>\<open>str.strip()\<close>: the ASCII characters for which \<open>str.isspace\<close> holds are removed at both ends.\<close>

definition isspace :: "char \<Rightarrow> bool" where
  "isspace c = (let n = (of_char c :: nat) in (9 \<le> n \<and> n \<le> 13) \<or> (28 \<le> n \<and> n \<le> 32))"

definition strip :: "string \<Rightarrow> string" where
  "strip s = rev (dropWhile isspace (rev (dropWhile isspace s)))"

text \<open>\<open>d[k]\<close> raises \<open>KeyError\<close> on a missing key.\<close>

definition getitem :: "dict \<Rightarrow> string \<Rightarrow> json result" where
  "getitem d k = (case d k of None \<Rightarrow> Inl (KeyError k) | Some v \<Rightarrow> Inr v)"

text \<open>\<open>d.get(k)\<close> gives \<open>None\<close> on a missing key.\<close>

definition dict_get :: "dict \<Rightarrow> string \<Rightarrow> json" where
  "dict_get d k = (case d k of None \<Rightarrow> JNone | Some v \<Rightarrow> v)"

text \<open>
  The number a JSON value stands for in Python arithmetic (\<open>bool\<close> is a subclass of
  \<open>int\<close>); adding anything else to a float raises \<open>TypeError\<close>.
\<close>

fun num_of :: "json \<Rightarrow> real option" where
  "num_of (JNum x) = Some x"
| "num_of (JBool b) = Some (if b then 1 else 0)"
| "num_of _ = None"

text \<open>\<open>deque.appendleft\<close> on a deque with \<open>maxlen\<close>: the element at the right end falls out when full.\<close>

definition appendleft :: "nat \<Rightarrow> 'a \<Rightarrow> 'a list \<Rightarrow> 'a list" where
  "appendleft maxlen x xs = take maxlen (x # xs)"

section \<open>locations.py: the Location accessor\<close>

type_synonym location = dict

text \<open>
  \<open>Location.name\<close>: \<open>name = None; try: name = self["display_name"]; except KeyError: pass;
  return name\<close>.
\<close>

definition Location_name :: "location \<Rightarrow> json result" where
  "Location_name self =
     (let name = JNone in
      case getitem self ''display_name'' of
        Inr v \<Rightarrow> Inr v
      | Inl (KeyError k) \<Rightarrow> Inr name
      | Inl err \<Rightarrow> Inl err)"

text \<open>\<open>Location(**j)\<close>: the value must be a mapping.\<close>

fun Location :: "json \<Rightarrow> location result" where
  "Location (JDict d) = Inr d"
| "Location _ = Inl TypeError"

section \<open>archivist.py: the client object\<close>

text \<open>
  The fields an \<open>Archivist\<close> has: those of its base class \<open>ArchivistPublic\<close> (fixtures,
  verify, max_time, the ring buffer of responses and its capacity) and those
  \<open>Archivist.__init__\<close> adds. \<open>self_auth\<close> holds \<open>None\<close> (\<open>JNone\<close>), the bearer string,
  or whatever the token endpoint answered.
\<close>

record archivist =
  self_fixtures :: dict
  self_verify :: bool
  self_max_time :: real
  self_response_ring_buffer :: "response list"
  self_ring_maxlen :: nat
  self_auth :: json
  self_client_id :: "string option"
  self_client_secret :: "string option"
  self_expires_at :: real
  self_url :: string
  self_root :: string

text \<open>The \<open>auth\<close> argument of the constructor: \<open>Union[None, str, MachineAuth]\<close>.\<close>

datatype auth_arg = NoAuth | Token string | Machine string string

text \<open>
  Modelled from the spec: the constructor of \<open>ArchivistPublic\<close> (archivistpublic.py) and
  the constant \<open>MAX_TIME\<close> (confirmer.py) are not present. The specification describes
  a small fixed-size ring buffer of responses and a maximum time per client with a default
  of 300 seconds, and no network call at construction: the constructor stores its
  arguments and creates the empty ring buffer, whose capacity is a parameter.
\<close>

definition MAX_TIME :: real where
  "MAX_TIME = 300"

record archivist_public =
  pub_fixtures :: dict
  pub_verify :: bool
  pub_max_time :: real
  pub_response_ring_buffer :: "response list"
  pub_ring_maxlen :: nat

definition ArchivistPublic_init ::
  "dict option \<Rightarrow> bool \<Rightarrow> real \<Rightarrow> nat \<Rightarrow> env \<Rightarrow> archivist_public \<times> env" where
  "ArchivistPublic_init fixtures verify max_time maxlen e =
     (\<lparr> pub_fixtures = (case fixtures of None \<Rightarrow> Map.empty | Some f \<Rightarrow> f),
        pub_verify = verify,
        pub_max_time = max_time,
        pub_response_ring_buffer = [],
        pub_ring_maxlen = maxlen \<rparr>, e)"

text \<open>
  \<open>Archivist.__init__\<close>: the call of \<open>super().__init__\<close>, the credentials, the test of
  the URL. \<open>max_time\<close> defaults to \<open>MAX_TIME\<close>. The environment is threaded through to
  make visible what the constructor does to it.
\<close>

definition Archivist_init ::
  "string \<Rightarrow> auth_arg \<Rightarrow> dict option \<Rightarrow> bool \<Rightarrow> real option \<Rightarrow> nat \<Rightarrow> env \<Rightarrow>
   archivist result \<times> env" where
  "Archivist_init url auth fixtures verify max_time maxlen e =
     (case ArchivistPublic_init fixtures verify
             (case max_time of None \<Rightarrow> MAX_TIME | Some t \<Rightarrow> t) maxlen e of
        (super, e') \<Rightarrow>
          (let (a, client_id, client_secret) =
                 (case auth of
                    Machine i s \<Rightarrow> (JNone, Some i, Some s)
                  | Token t \<Rightarrow> (JStr t, None, None)
                  | NoAuth \<Rightarrow> (JNone, None, None))
           in if endswith url ''/''
              then (Inl (ArchivistError (''URL '' @ url @ '' has trailing /'')), e')
              else (Inr \<lparr> self_fixtures = pub_fixtures super,
                          self_verify = pub_verify super,
                          self_max_time = pub_max_time super,
                          self_response_ring_buffer = pub_response_ring_buffer super,
                          self_ring_maxlen = pub_ring_maxlen super,
                          self_auth = a,
                          self_client_id = client_id,
                          self_client_secret = client_secret,
                          self_expires_at = 0,
                          self_url = url,
                          self_root = url @ SEP @ ROOT \<rparr>, e')))"

section \<open>Transport: what the missing modules contribute\<close>

text \<open>
  Modelled from the spec: \<open>_parse_response\<close> of errors.py is not present. The
  specification classifies a response by its status: a successful (2xx) status is no
  error; 404 is NotFoundError, 429 RateLimitError, 401 and 403 PermissionError, the other
  4xx ConstraintViolationError, 5xx ServerError; each kind carries the response. The
  specification names no kind for the remaining codes; they are reported as the base
  \<open>ArchivistError\<close>.
\<close>

definition parse_response :: "response \<Rightarrow> error option" where
  "parse_response rs =
     (let c = status_code rs in
      if 200 \<le> c \<and> c < 300 then None
      else if c = 404 then Some (NotFoundError (Some rs))
      else if c = 429 then Some (RateLimitError rs)
      else if c = 401 \<or> c = 403 then Some (PermissionError rs)
      else if 400 \<le> c \<and> c < 500 then Some (ConstraintViolationError rs)
      else if 500 \<le> c \<and> c < 600 then Some (ServerError rs)
      else Some (ArchivistError ''unexpected status''))"

text \<open>
  The tail every REST verb of archivist.py ends with:
  \<open>error = _parse_response(response); if error is not None: raise error;
  return response.json()\<close>.
\<close>

definition raise_or_json :: "response \<Rightarrow> json result" where
  "raise_or_json rs =
     (case parse_response rs of
        Some err \<Rightarrow> Inl err
      | None \<Rightarrow> (case body rs of None \<Rightarrow> Inl JSONDecodeError | Some j \<Rightarrow> Inr j))"

text \<open>
  Modelled from the spec: the retry-after hint of a rate-limited response. The server
  gives the seconds to wait in the header named by \<open>HEADERS_RETRY_AFTER\<close>, as a decimal
  number; when the header is absent (or is no decimal number) a default backoff is used,
  for which the specification suggests one second.
\<close>

definition isdigit :: "char \<Rightarrow> bool" where
  "isdigit c = (let n = (of_char c :: nat) in 48 \<le> n \<and> n \<le> 57)"

definition parse_seconds :: "string \<Rightarrow> nat option" where
  "parse_seconds s =
     (if s = [] \<or> \<not> list_all isdigit s then None
      else Some (foldl (\<lambda>acc c. 10 * acc + (of_char c - 48)) 0 s))"

definition DEFAULT_BACKOFF :: real where
  "DEFAULT_BACKOFF = 1"

definition retry_after :: "response \<Rightarrow> real" where
  "retry_after rs =
     (case headers rs HEADERS_RETRY_AFTER of
        None \<Rightarrow> DEFAULT_BACKOFF
      | Some v \<Rightarrow> (case parse_seconds v of None \<Rightarrow> DEFAULT_BACKOFF | Some n \<Rightarrow> real n))"

text \<open>
  A program of the client runs on the client object and the environment, returns a value
  or raises, and may not return at all (\<open>None\<close>): the retry loop below has no bound on
  the number of its rounds.
\<close>

type_synonym state = "archivist \<times> env"

type_synonym 'a prog = "state \<Rightarrow> ('a result \<times> state) option"

fun rate_limited :: "'a result \<Rightarrow> response option" where
  "rate_limited (Inl (RateLimitError rs)) = Some rs"
| "rate_limited _ = None"

text \<open>
  Modelled from the spec: \<open>retry_429\<close> of retry429.py is not present. The
  specification: the wrapper runs the call; on RateLimitError it reads the retry-after
  duration, sleeps for it and runs the same call again, until a success or another error is
  obtained, or the time elapsed since the wrapper was entered exceeds the client's maximum
  time, at which point the RateLimitError is re-raised.
\<close>

partial_function (option) retry_loop ::
  "(state \<Rightarrow> ('a result \<times> state) option) \<Rightarrow> real \<Rightarrow> state \<Rightarrow> ('a result \<times> state) option" where
  "retry_loop f start s =
     (case f s of
        None \<Rightarrow> None
      | Some (r, s') \<Rightarrow>
          (case rate_limited r of
             None \<Rightarrow> Some (r, s')
           | Some rs \<Rightarrow>
               if self_max_time (fst s') < time (snd s') - start then Some (r, s')
               else retry_loop f start (fst s', sleep (retry_after rs) (snd s'))))"

definition retry_429 :: "'a prog \<Rightarrow> 'a prog" where
  "retry_429 f s = retry_loop f (time (snd s)) s"

section \<open>archivist.py: token and headers\<close>

text \<open>
  The \<open>if data:\<close> branch of \<open>post\<close>: the request body goes out form-encoded, with no
  headers argument; the response is not put into the ring buffer. It stands first because
  the token fetch below is such a call.
\<close>

definition post_data :: "string \<Rightarrow> dict option \<Rightarrow> json prog" where
  "post_data url request s =
     (case s of (a, e) \<Rightarrow>
        (case session_send \<lparr> rq_verb = POST, rq_url = url, rq_headers = None,
                             rq_payload = FormBody request, rq_verify = self_verify a,
                             rq_params = None \<rparr> e of
           (Inl err, e') \<Rightarrow> Some (Inl err, a, e')
         | (Inr response, e') \<Rightarrow> Some (raise_or_json response, a, e')))"

text \<open>
  Modelled from the spec: \<open>appidp.token\<close> of appidp.py is not present. The specification
  describes a dedicated token-fetch call using the client credentials; it is the client's
  own \<open>post\<close> (so under \<open>retry_429\<close>) in form-encoded mode, the mode that needs no token.
  The path of the endpoint is given neither by the specification nor by the sources
  present; nothing below depends on its value.
\<close>

definition APPIDP_TOKEN :: string where
  "APPIDP_TOKEN = ''iam/v1/appidp/token''"

definition appidp_token :: "string \<Rightarrow> string option \<Rightarrow> json prog" where
  "appidp_token client_id client_secret s =
     retry_429
       (post_data (self_root (fst s) @ ''/'' @ APPIDP_TOKEN)
          (Some [''client_id'' \<mapsto> JStr client_id,
                 ''client_secret'' \<mapsto> (case client_secret of None \<Rightarrow> JNone | Some x \<Rightarrow> JStr x)]))
       s"

text \<open>
  The \<open>auth\<close> property. The assignments happen in the order of the source: \<open>_auth\<close> is
  overwritten before it is tested, \<open>_expires_at\<close> only after \<open>expires_in\<close> was read.
  \<open>time() + apptoken["expires_in"] - 10\<close> is a sum and then a difference of doubles.
\<close>

definition auth :: "json prog" where
  "auth s =
     (case s of (a, e) \<Rightarrow>
        (case self_client_id a of
           None \<Rightarrow> Some (Inr (self_auth a), a, e)
         | Some client_id \<Rightarrow>
             if self_expires_at a < time e then
               (case appidp_token client_id (self_client_secret a) (a, e) of
                  None \<Rightarrow> None
                | Some (Inl err, s1) \<Rightarrow> Some (Inl err, s1)
                | Some (Inr apptoken, a1, e1) \<Rightarrow>
                    (case apptoken of
                       JDict d \<Rightarrow>
                         (let a2 = a1\<lparr>self_auth := dict_get d ''access_token''\<rparr> in
                          if self_auth a2 = JNone then
                            Some (Inl (ArchivistError ''Auth token from client id,secret is invalid''), a2, e1)
                          else
                            (case getitem d ''expires_in'' of
                               Inl err \<Rightarrow> Some (Inl err, a2, e1)
                             | Inr v \<Rightarrow>
                                 (case num_of v of
                                    None \<Rightarrow> Some (Inl TypeError, a2, e1)
                                  | Some x \<Rightarrow>
                                      (let a3 = a2\<lparr>self_expires_at :=
                                                      float_sub e1 (float_add e1 (time e1) x) 10\<rparr> in
                                       Some (Inr (self_auth a3), a3, e1)))))
                     | _ \<Rightarrow> Some (Inl AttributeError, a1, e1)))
             else Some (Inr (self_auth a), a, e)))"

text \<open>
  \<open>_add_headers\<close>: a copy of the caller's headers, with the bearer token added when
  \<open>auth\<close> gives one. \<open>auth.strip()\<close> exists for strings only.
\<close>

definition add_headers :: "(string \<rightharpoonup> string) option \<Rightarrow> (string \<rightharpoonup> string) prog" where
  "add_headers hdrs s =
     (let newheaders = (case hdrs of Some h \<Rightarrow> h | None \<Rightarrow> Map.empty) in
      case auth s of
        None \<Rightarrow> None
      | Some (Inl err, s') \<Rightarrow> Some (Inl err, s')
      | Some (Inr tok, s') \<Rightarrow>
          (case tok of
             JNone \<Rightarrow> Some (Inr newheaders, s')
           | JStr t \<Rightarrow> Some (Inr (newheaders(''authorization'' \<mapsto> ''Bearer '' @ strip t)), s')
           | _ \<Rightarrow> Some (Inl AttributeError, s')))"

section \<open>archivist.py: the REST verbs\<close>

text \<open>
  Each verb is given as the method body (\<open>_undecorated\<close>) and as the method the callers
  see, under the \<open>@retry_429\<close> decorator.
\<close>

definition post_undecorated ::
  "string \<Rightarrow> dict option \<Rightarrow> (string \<rightharpoonup> string) option \<Rightarrow> bool \<Rightarrow> json prog" where
  "post_undecorated url request hdrs data s =
     (if data then post_data url request s
      else
        (case add_headers hdrs s of
           None \<Rightarrow> None
         | Some (Inl err, s') \<Rightarrow> Some (Inl err, s')
         | Some (Inr h, a, e) \<Rightarrow>
             (case session_send \<lparr> rq_verb = POST, rq_url = url, rq_headers = Some h,
                                  rq_payload = JsonBody request, rq_verify = self_verify a,
                                  rq_params = None \<rparr> e of
                (Inl err, e') \<Rightarrow> Some (Inl err, a, e')
              | (Inr response, e') \<Rightarrow> Some (raise_or_json response, a, e'))))"

definition post ::
  "string \<Rightarrow> dict option \<Rightarrow> (string \<rightharpoonup> string) option \<Rightarrow> bool \<Rightarrow> json prog" where
  "post url request hdrs data = retry_429 (post_undecorated url request hdrs data)"

text \<open>
  \<open>post_file\<close>. The content type the multipart encoder computes (it holds a random
  boundary) and the missing helper \<open>_dotdict\<close> of dictmerge.py are parameters.
\<close>

definition post_file_undecorated ::
  "(dict option \<Rightarrow> dict option) \<Rightarrow> string \<Rightarrow>
   string \<Rightarrow> string \<Rightarrow> string \<Rightarrow> string option \<Rightarrow> dict option \<Rightarrow> json prog" where
  "post_file_undecorated dotdict content_type url fd mtype form params s =
     (case add_headers (Some [''content-type'' \<mapsto> content_type]) s of
        None \<Rightarrow> None
      | Some (Inl err, s') \<Rightarrow> Some (Inl err, s')
      | Some (Inr h, a, e) \<Rightarrow>
          (case session_send \<lparr> rq_verb = POST, rq_url = url, rq_headers = Some h,
                               rq_payload = MultipartBody form fd mtype,
                               rq_verify = self_verify a, rq_params = dotdict params \<rparr> e of
             (Inl err, e') \<Rightarrow> Some (Inl err, a, e')
           | (Inr response, e') \<Rightarrow>
               Some (raise_or_json response,
                     a\<lparr>self_response_ring_buffer :=
                          appendleft (self_ring_maxlen a) response (self_response_ring_buffer a)\<rparr>,
                     e')))"

definition post_file ::
  "(dict option \<Rightarrow> dict option) \<Rightarrow> string \<Rightarrow>
   string \<Rightarrow> string \<Rightarrow> string \<Rightarrow> string option \<Rightarrow> dict option \<Rightarrow> json prog" where
  "post_file dotdict content_type url fd mtype form params =
     retry_429 (post_file_undecorated dotdict content_type url fd mtype form params)"

definition delete_undecorated :: "string \<Rightarrow> (string \<rightharpoonup> string) option \<Rightarrow> json prog" where
  "delete_undecorated url hdrs s =
     (case add_headers hdrs s of
        None \<Rightarrow> None
      | Some (Inl err, s') \<Rightarrow> Some (Inl err, s')
      | Some (Inr h, a, e) \<Rightarrow>
          (case session_send \<lparr> rq_verb = DELETE, rq_url = url, rq_headers = Some h,
                               rq_payload = NoBody, rq_verify = self_verify a,
                               rq_params = None \<rparr> e of
             (Inl err, e') \<Rightarrow> Some (Inl err, a, e')
           | (Inr response, e') \<Rightarrow>
               Some (raise_or_json response,
                     a\<lparr>self_response_ring_buffer :=
                          appendleft (self_ring_maxlen a) response (self_response_ring_buffer a)\<rparr>,
                     e')))"

definition delete :: "string \<Rightarrow> (string \<rightharpoonup> string) option \<Rightarrow> json prog" where
  "delete url hdrs = retry_429 (delete_undecorated url hdrs)"

definition patch_undecorated ::
  "string \<Rightarrow> dict \<Rightarrow> (string \<rightharpoonup> string) option \<Rightarrow> json prog" where
  "patch_undecorated url request hdrs s =
     (case add_headers hdrs s of
        None \<Rightarrow> None
      | Some (Inl err, s') \<Rightarrow> Some (Inl err, s')
      | Some (Inr h, a, e) \<Rightarrow>
          (case session_send \<lparr> rq_verb = PATCH, rq_url = url, rq_headers = Some h,
                               rq_payload = JsonBody (Some request), rq_verify = self_verify a,
                               rq_params = None \<rparr> e of
             (Inl err, e') \<Rightarrow> Some (Inl err, a, e')
           | (Inr response, e') \<Rightarrow>
               Some (raise_or_json response,
                     a\<lparr>self_response_ring_buffer :=
                          appendleft (self_ring_maxlen a) response (self_response_ring_buffer a)\<rparr>,
                     e')))"

definition patch :: "string \<Rightarrow> dict \<Rightarrow> (string \<rightharpoonup> string) option \<Rightarrow> json prog" where
  "patch url request hdrs = retry_429 (patch_undecorated url request hdrs)"

text \<open>
  The transport operations of archivist.py as one type, so that a statement can range over
  all of them.
\<close>

datatype call =
    Post string "dict option" "(string \<rightharpoonup> string) option" bool
  | PostFile string string string "string option" "dict option"
  | Delete string "(string \<rightharpoonup> string) option"
  | Patch string dict "(string \<rightharpoonup> string) option"

fun undecorated :: "(dict option \<Rightarrow> dict option) \<Rightarrow> string \<Rightarrow> call \<Rightarrow> json prog" where
  "undecorated dotdict ct (Post url request hdrs data) = post_undecorated url request hdrs data"
| "undecorated dotdict ct (PostFile url fd mtype form params) =
     post_file_undecorated dotdict ct url fd mtype form params"
| "undecorated dotdict ct (Delete url hdrs) = delete_undecorated url hdrs"
| "undecorated dotdict ct (Patch url request hdrs) = patch_undecorated url request hdrs"

fun transport :: "(dict option \<Rightarrow> dict option) \<Rightarrow> string \<Rightarrow> call \<Rightarrow> json prog" where
  "transport dotdict ct (Post url request hdrs data) = post url request hdrs data"
| "transport dotdict ct (PostFile url fd mtype form params) =
     post_file dotdict ct url fd mtype form params"
| "transport dotdict ct (Delete url hdrs) = delete url hdrs"
| "transport dotdict ct (Patch url request hdrs) = patch url request hdrs"

text \<open>
  Modelled from the spec: \<open>get\<close> of archivistpublic.py is not present. The
  specification's transport contract: the bearer header is attached, the response is
  recorded in the ring buffer, an error status raises the error of its kind, a successful
  one returns the JSON body; the call is under the retry wrapper like every transport call.
\<close>

definition get_undecorated ::
  "string \<Rightarrow> (string \<rightharpoonup> string) option \<Rightarrow> dict option \<Rightarrow> json prog" where
  "get_undecorated url hdrs params s =
     (case add_headers hdrs s of
        None \<Rightarrow> None
      | Some (Inl err, s') \<Rightarrow> Some (Inl err, s')
      | Some (Inr h, a, e) \<Rightarrow>
          (case session_send \<lparr> rq_verb = GET, rq_url = url, rq_headers = Some h,
                               rq_payload = NoBody, rq_verify = self_verify a,
                               rq_params = params \<rparr> e of
             (Inl err, e') \<Rightarrow> Some (Inl err, a, e')
           | (Inr response, e') \<Rightarrow>
               Some (raise_or_json response,
                     a\<lparr>self_response_ring_buffer :=
                          appendleft (self_ring_maxlen a) response (self_response_ring_buffer a)\<rparr>,
                     e')))"

definition get :: "string \<Rightarrow> (string \<rightharpoonup> string) option \<Rightarrow> dict option \<Rightarrow> json prog" where
  "get url hdrs params = retry_429 (get_undecorated url hdrs params)"

section \<open>locations.py: the locations client\<close>

text \<open>
  \<open>_LocationsClient.__init__\<close> computes \<open>_subpath\<close> and \<open>_label\<close> from the root of the
  archivist it belongs to.
\<close>

definition locations_subpath :: "archivist \<Rightarrow> string" where
  "locations_subpath a = self_root a @ ''/'' @ LOCATIONS_SUBPATH"

definition locations_label :: "archivist \<Rightarrow> string" where
  "locations_label a = locations_subpath a @ ''/'' @ LOCATIONS_LABEL"

definition create_from_data :: "dict \<Rightarrow> location prog" where
  "create_from_data data s =
     (case post (locations_label (fst s)) (Some data) None False s of
        None \<Rightarrow> None
      | Some (Inl err, s') \<Rightarrow> Some (Inl err, s')
      | Some (Inr j, s') \<Rightarrow> Some (Location j, s'))"

definition read :: "string \<Rightarrow> location prog" where
  "read identity s =
     (case get (locations_subpath (fst s) @ ''/'' @ identity) None None s of
        None \<Rightarrow> None
      | Some (Inl err, s') \<Rightarrow> Some (Inl err, s')
      | Some (Inr j, s') \<Rightarrow> Some (Location j, s'))"

text \<open>
  \<open>__params\<close>: \<open>if props\<close> and \<open>if attrs\<close> are false for \<open>None\<close> and for the empty
  dictionary. The missing helper \<open>_deepmerge\<close> of dictmerge.py is a parameter.
\<close>

definition truthy :: "dict option \<Rightarrow> bool" where
  "truthy d = (case d of None \<Rightarrow> False | Some m \<Rightarrow> m \<noteq> Map.empty)"

definition locations_params ::
  "(json \<Rightarrow> dict \<Rightarrow> dict option) \<Rightarrow> archivist \<Rightarrow> dict option \<Rightarrow> dict option \<Rightarrow> dict option" where
  "locations_params deepmerge a props attrs =
     (let params = (case props of Some p \<Rightarrow> if truthy props then p else Map.empty
                                | None \<Rightarrow> Map.empty);
          params = (case attrs of Some t \<Rightarrow> if truthy attrs then params(''attributes'' \<mapsto> JDict t)
                                            else params
                                | None \<Rightarrow> params)
      in deepmerge (dict_get (self_fixtures a) LOCATIONS_LABEL) params)"

text \<open>
  \<open>read_by_signature\<close>. \<open>get_by_signature\<close> of archivistpublic.py is not present and the
  specification does not describe it: it is a parameter, a program of the client like
  \<open>get\<close>.
\<close>

definition read_by_signature ::
  "(json \<Rightarrow> dict \<Rightarrow> dict option) \<Rightarrow> (string \<Rightarrow> string \<Rightarrow> dict option \<Rightarrow> json prog) \<Rightarrow>
   dict option \<Rightarrow> dict option \<Rightarrow> location prog" where
  "read_by_signature deepmerge get_by_signature props attrs s =
     (case get_by_signature (locations_label (fst s)) LOCATIONS_LABEL
             (locations_params deepmerge (fst s) props attrs) s of
        None \<Rightarrow> None
      | Some (Inl err, s') \<Rightarrow> Some (Inl err, s')
      | Some (Inr j, s') \<Rightarrow> Some (Location j, s'))"

subsection \<open>Dictionary objects\<close>

text \<open>
  \<open>create_if_not_exists\<close> mutates a dictionary (\<open>data.pop\<close>), so the dictionaries the
  caller and the method hold are objects in a store, named by references. The values
  inside a dictionary are held by value, so the copy of a stored dictionary under a fresh
  reference is a deep copy. A reference outside the store is no Python value: a program
  given one has no run.
\<close>

type_synonym ref = nat

type_synonym store = "dict list"

definition deepcopy :: "ref \<Rightarrow> store \<Rightarrow> (ref \<times> store) option" where
  "deepcopy p h = (if p < length h then Some (length h, h @ [h ! p]) else None)"

definition dict_pop :: "ref \<Rightarrow> string \<Rightarrow> store \<Rightarrow> (json result \<times> store) option" where
  "dict_pop p k h =
     (if p < length h then
        (case (h ! p) k of
           None \<Rightarrow> Some (Inl (KeyError k), h)
         | Some v \<Rightarrow> Some (Inr v, h[p := (h ! p)(k := None)]))
      else None)"

text \<open>
  \<open>create_if_not_exists\<close>. \<open>selector_signature\<close> of utils.py is not present: it is a
  parameter, a function of the selector and of the dictionary it is given.
\<close>

definition create_if_not_exists ::
  "(json \<Rightarrow> dict \<Rightarrow> dict option \<times> dict option) \<Rightarrow>
   (json \<Rightarrow> dict \<Rightarrow> dict option) \<Rightarrow> (string \<Rightarrow> string \<Rightarrow> dict option \<Rightarrow> json prog) \<Rightarrow>
   ref \<Rightarrow> store \<times> state \<Rightarrow> ((location \<times> bool) result \<times> store \<times> state) option" where
  "create_if_not_exists selector_signature deepmerge get_by_signature data hs =
     (case hs of (h, s) \<Rightarrow>
        (case deepcopy data h of
           None \<Rightarrow> None
         | Some (data, h1) \<Rightarrow>
             (case dict_pop data ''selector'' h1 of
                None \<Rightarrow> None
              | Some (Inl err, h2) \<Rightarrow> Some (Inl err, h2, s)
              | Some (Inr selector, h2) \<Rightarrow>
                  (case selector_signature selector (h2 ! data) of (props, attrs) \<Rightarrow>
                     (case read_by_signature deepmerge get_by_signature props attrs s of
                        None \<Rightarrow> None
                      | Some (Inl (NotFoundError x), s') \<Rightarrow>
                          (case create_from_data (h2 ! data) s' of
                             None \<Rightarrow> None
                           | Some (Inl err, s'') \<Rightarrow> Some (Inl err, h2, s'')
                           | Some (Inr created, s'') \<Rightarrow> Some (Inr (created, False), h2, s''))
                      | Some (Inl err, s') \<Rightarrow> Some (Inl err, h2, s')
                      | Some (Inr location, s') \<Rightarrow> Some (Inr (location, True), h2, s'))))))"

section \<open>The confirmation poller\<close>

datatype confirmation = PENDING | CONFIRMED | FAILED

text \<open>
  The status an entity shows in its field \<open>confirmation_status\<close>, with the strings of
  constants.py.
\<close>

definition confirmation_status :: "dict \<Rightarrow> confirmation option" where
  "confirmation_status entity =
     (case entity CONFIRMATION_STATUS of
        Some (JStr v) \<Rightarrow>
          (if v = CONFIRMATION_PENDING then Some PENDING
           else if v = CONFIRMATION_CONFIRMED then Some CONFIRMED
           else if v = CONFIRMATION_FAILED then Some FAILED
           else None)
      | _ \<Rightarrow> None)"

text \<open>
  Modelled from the spec: \<open>wait_for_confirmation\<close> of confirmer.py is not present. The
  specification: the poller calls \<open>read(identity)\<close> repeatedly, with a fixed poll interval,
  until the status leaves PENDING or the elapsed time exceeds the timeout (by default the
  client's maximum time). It returns the entity on CONFIRMED, fails with
  ConfirmationFailedError on FAILED, and with ConfirmationTimeoutError when the deadline
  elapses while the status is still PENDING, reading no more after the deadline: the
  deadline is tested after each wait, before the next read. The specification enumerates
  the three values only; an entity showing none of them is reported as
  ConfirmationFailedError here.
\<close>

definition POLL_INTERVAL :: real where
  "POLL_INTERVAL = 1"

partial_function (option) confirmation_loop ::
  "(string \<Rightarrow> dict prog) \<Rightarrow> string \<Rightarrow> real \<Rightarrow> real \<Rightarrow> state \<Rightarrow> (dict result \<times> state) option" where
  "confirmation_loop rd identity start timeout s =
     (case rd identity s of
        None \<Rightarrow> None
      | Some (Inl err, s') \<Rightarrow> Some (Inl err, s')
      | Some (Inr entity, s') \<Rightarrow>
          (case confirmation_status entity of
             Some CONFIRMED \<Rightarrow> Some (Inr entity, s')
           | Some PENDING \<Rightarrow>
               (let s'' = (fst s', sleep POLL_INTERVAL (snd s')) in
                if timeout < time (snd s'') - start then Some (Inl ConfirmationTimeoutError, s'')
                else confirmation_loop rd identity start timeout s'')
           | _ \<Rightarrow> Some (Inl (ConfirmationFailedError (JDict entity)), s')))"

definition wait_for_confirmation ::
  "(string \<Rightarrow> dict prog) \<Rightarrow> string \<Rightarrow> real option \<Rightarrow> dict prog" where
  "wait_for_confirmation rd identity timeout s =
     confirmation_loop rd identity (time (snd s))
       (case timeout of None \<Rightarrow> self_max_time (fst s) | Some t \<Rightarrow> t) s"

section \<open>Observations on a run\<close>

text \<open>The calls whose body goes out form-encoded: \<open>post\<close> with \<open>data=True\<close>.\<close>

fun form_encoded :: "call \<Rightarrow> bool" where
  "form_encoded (Post url request hdrs data) = data"
| "form_encoded _ = False"


text \<open>
  A client that holds no client credentials and whose token is \<open>None\<close> or a string, as
  the constructor leaves it for an \<open>auth\<close> argument that is \<open>None\<close> or a string.
\<close>

definition plain_token :: "archivist \<Rightarrow> bool" where
  "plain_token a =
     (self_client_id a = None \<and> (case self_auth a of JNone \<Rightarrow> True | JStr t \<Rightarrow> True | _ \<Rightarrow> False))"


section \<open>Mock servers and a client for the examples\<close>

definition ok :: "json \<Rightarrow> response" where
  "ok j = \<lparr> status_code = 200, headers = Map.empty, body = Some j, elapsed = 0 \<rparr>"

definition too_many_requests :: response where
  "too_many_requests =
     \<lparr> status_code = 429, headers = [HEADERS_RETRY_AFTER \<mapsto> ''2''], body = None, elapsed = 0 \<rparr>"

text \<open>A server that answers 429 with retry-after 2 until it has received \<open>n\<close> requests, then \<open>good\<close>.\<close>

definition throttled :: "nat \<Rightarrow> response \<Rightarrow> request list \<Rightarrow> request \<Rightarrow> response option" where
  "throttled n good hist rq = (if length hist < n then Some too_many_requests else Some good)"

text \<open>A server that answers every request with \<open>first\<close> until it has received \<open>k\<close> requests, then with \<open>later\<close>.\<close>

definition switching :: "nat \<Rightarrow> json \<Rightarrow> json \<Rightarrow> request list \<Rightarrow> request \<Rightarrow> response option" where
  "switching k first later hist rq = (if length hist < k then Some (ok first) else Some (ok later))"

text \<open>
  The environment of the examples: nothing sent yet, and a rounding that changes nothing
  (the sums and differences of the examples are exact in doubles).
\<close>

definition fresh_env :: "real \<Rightarrow> (request list \<Rightarrow> request \<Rightarrow> response option) \<Rightarrow> env" where
  "fresh_env t server =
     \<lparr> now = t, slept = 0, net = server, sent = [], float_round = (\<lambda>x. x) \<rparr>"

text \<open>What a token endpoint answers: a token (with blanks around it) that expires in \<open>x\<close> seconds.\<close>

definition token_reply :: "real \<Rightarrow> json" where
  "token_reply x = JDict [''access_token'' \<mapsto> JStr '' tok '', ''expires_in'' \<mapsto> JNum x]"

text \<open>A location as a server answers it.\<close>

definition gare_du_nord :: dict where
  "gare_du_nord = [''identity'' \<mapsto> JStr ''locations/1'', ''display_name'' \<mapsto> JStr ''Gare du Nord'']"

text \<open>An entity before and after its confirmation.\<close>

definition pending_asset :: dict where
  "pending_asset = [''identity'' \<mapsto> JStr ''assets/1'', CONFIRMATION_STATUS \<mapsto> JStr CONFIRMATION_PENDING]"

definition confirmed_asset :: dict where
  "confirmed_asset = [''identity'' \<mapsto> JStr ''assets/1'', CONFIRMATION_STATUS \<mapsto> JStr CONFIRMATION_CONFIRMED]"

text \<open>
  An argument for \<open>create_if_not_exists\<close>, and stand-ins for the helpers that are not
  present: a signature made of the display name, a merge that keeps the parameters, a
  lookup that finds a location and one that finds none.
\<close>

definition request_data :: dict where
  "request_data = [''selector'' \<mapsto> JList [JStr ''display_name''],
                   ''display_name'' \<mapsto> JStr ''Gare du Nord'']"

definition by_display_name :: "json \<Rightarrow> dict \<Rightarrow> dict option \<times> dict option" where
  "by_display_name selector d = (Some [''display_name'' \<mapsto> dict_get d ''display_name''], None)"

definition keep_params :: "json \<Rightarrow> dict \<Rightarrow> dict option" where
  "keep_params fixtures params = Some params"

definition lookup_found :: "string \<Rightarrow> string \<Rightarrow> dict option \<Rightarrow> json prog" where
  "lookup_found url field params s = Some (Inr (JDict gare_du_nord), s)"

definition lookup_missing :: "string \<Rightarrow> string \<Rightarrow> dict option \<Rightarrow> json prog" where
  "lookup_missing url field params s = Some (Inl (NotFoundError None), s)"

text \<open>The client \<open>Archivist("https://app.rkvst.io", auth)\<close>, with a ring buffer of 10.\<close>

definition client :: "auth_arg \<Rightarrow> archivist" where
  "client au =
     \<lparr> self_fixtures = Map.empty, self_verify = True, self_max_time = 300,
       self_response_ring_buffer = [], self_ring_maxlen = 10,
       self_auth = (case au of Token t \<Rightarrow> JStr t | _ \<Rightarrow> JNone),
       self_client_id = (case au of Machine i s \<Rightarrow> Some i | _ \<Rightarrow> None),
       self_client_secret = (case au of Machine i s \<Rightarrow> Some s | _ \<Rightarrow> None),
       self_expires_at = 0,
       self_url = ''https://app.rkvst.io'',
       self_root = ''https://app.rkvst.io/archivist'' \<rparr>"

section \<open>Properties\<close>

lemma endswith_slash: "endswith s ''/'' \<longleftrightarrow> (\<exists>p. s = p @ ''/'')"
proof
  assume "endswith s ''/''"
  then have "s = take (length s - 1) s @ ''/''"
    by (metis append_take_drop_id endswith_def length_Cons list.size(3) One_nat_def)
  then show "\<exists>p. s = p @ ''/''" ..
next
  assume "\<exists>p. s = p @ ''/''"
  then show "endswith s ''/''" by (auto simp: endswith_def)
qed

lemma client_init:
  "Archivist_init ''https://app.rkvst.io'' au None True None 10 e = (Inr (client au), e)"
  by (cases au)
     (simp_all add: Archivist_init_def ArchivistPublic_init_def MAX_TIME_def client_def
        endswith_def SEP_def ROOT_def)

subsection \<open>One round of the retry loop\<close>

lemma retry_loop_done:
  "f s = Some (r, s') \<Longrightarrow> rate_limited r = None \<Longrightarrow> retry_loop f start s = Some (r, s')"
  by (subst retry_loop.simps) simp

lemma retry_loop_giveup:
  "f s = Some (r, s') \<Longrightarrow> rate_limited r = Some rs \<Longrightarrow>
   self_max_time (fst s') < time (snd s') - start \<Longrightarrow> retry_loop f start s = Some (r, s')"
  by (subst retry_loop.simps) simp

lemma retry_loop_again:
  "f s = Some (r, s') \<Longrightarrow> rate_limited r = Some rs \<Longrightarrow>
   \<not> self_max_time (fst s') < time (snd s') - start \<Longrightarrow>
   retry_loop f start s = retry_loop f start (fst s', sleep (retry_after rs) (snd s'))"
  by (subst retry_loop.simps) simp

lemma retry_after_too_many_requests: "retry_after too_many_requests = 2"
  by (simp add: retry_after_def too_many_requests_def HEADERS_RETRY_AFTER_def
      parse_seconds_def isdigit_def)





text \<open>The definitions a concrete run unfolds.\<close>

lemmas run_defs =
  post_def post_undecorated_def post_data_def patch_def patch_undecorated_def
  delete_def delete_undecorated_def post_file_def post_file_undecorated_def
  get_def get_undecorated_def add_headers_def auth_def appidp_token_def APPIDP_TOKEN_def
  retry_429_def session_send_def raise_or_json_def parse_response_def
  time_def sleep_def float_add_def float_sub_def appendleft_def dict_get_def getitem_def
  client_def fresh_env_def throttled_def switching_def ok_def too_many_requests_def
  strip_def isspace_def

lemma auth_machine_example:
  "auth (client (Machine ''id'' ''secret''), fresh_env 50 (throttled 0 (ok (token_reply 3600))))
   = Some (Inr (JStr '' tok ''),
       (client (Machine ''id'' ''secret''))\<lparr>self_auth := JStr '' tok '', self_expires_at := 3640\<rparr>,
       (fresh_env 50 (throttled 0 (ok (token_reply 3600))))
         \<lparr>sent := [\<lparr> rq_verb = POST, rq_url = ''https://app.rkvst.io/archivist/iam/v1/appidp/token'',
                     rq_headers = None,
                     rq_payload = FormBody (Some [''client_id'' \<mapsto> JStr ''id'',
                                                  ''client_secret'' \<mapsto> JStr ''secret'']),
                     rq_verify = True, rq_params = None \<rparr>]\<rparr>)"
  by (simp add: run_defs retry_loop_done token_reply_def)

subsection \<open>Entity accessors\<close>

text \<open>
  C8: for every Location mapping, \<open>name\<close> returns the value stored under
  \<open>display_name\<close> when the key is present, and \<open>None\<close> (no exception) when it is absent.
\<close>

theorem Location_name_lookup:
  "Location_name d = Inr (case d ''display_name'' of Some v \<Rightarrow> v | None \<Rightarrow> JNone)"
  by (simp add: Location_name_def getitem_def split: option.split)

theorem Location_name_lookup_witness:
  "Location_name [''display_name'' \<mapsto> JStr ''Macclesfield''] = Inr (JStr ''Macclesfield'')
   \<and> Location_name [''description'' \<mapsto> JStr ''x''] = Inr JNone"
  using Location_name_lookup [of "[''display_name'' \<mapsto> JStr ''Macclesfield'']"]
        Location_name_lookup [of "[''description'' \<mapsto> JStr ''x'']"]
  by simp

subsection \<open>Construction\<close>

text \<open>
  C6: for every URL ending in \<open>/\<close> the constructor raises \<open>ArchivistError\<close>, and for
  every other URL it returns a client; in both cases the environment is as before: no
  request was sent.
\<close>

theorem init_trailing_slash:
  "((\<exists>p. url = p @ ''/'') \<longrightarrow>
      Archivist_init url au fixtures verify max_time maxlen e =
        (Inl (ArchivistError (''URL '' @ url @ '' has trailing /'')), e))
   \<and> (\<not> (\<exists>p. url = p @ ''/'') \<longrightarrow>
      (\<exists>a. Archivist_init url au fixtures verify max_time maxlen e = (Inr a, e) \<and> self_url a = url))"
  unfolding endswith_slash [symmetric]
  by (cases au) (simp_all add: Archivist_init_def ArchivistPublic_init_def)

theorem init_trailing_slash_witness:
  "Archivist_init ''https://app.rkvst.io/'' (Token ''t'') None True None 10
       (fresh_env 0 (throttled 0 (ok JNone))) =
     (Inl (ArchivistError ''URL https://app.rkvst.io/ has trailing /''),
      fresh_env 0 (throttled 0 (ok JNone)))
   \<and> (\<exists>a. Archivist_init ''https://app.rkvst.io'' (Token ''t'') None True None 10
            (fresh_env 0 (throttled 0 (ok JNone))) =
          (Inr a, fresh_env 0 (throttled 0 (ok JNone))) \<and> self_url a = ''https://app.rkvst.io'')"
  using init_trailing_slash [of "''https://app.rkvst.io/''" "Token ''t''" None True None 10
          "fresh_env 0 (throttled 0 (ok JNone))"]
        init_trailing_slash [of "''https://app.rkvst.io''" "Token ''t''" None True None 10
          "fresh_env 0 (throttled 0 (ok JNone))"]
  by simp

subsection \<open>The auth property\<close>

text \<open>
  C9: a client constructed with a string token or with \<open>None\<close> answers every access to
  \<open>auth\<close>, in any environment (so at any time), with the stored value; the client and the
  environment are as before the access, so no token was fetched.
\<close>

theorem auth_plain_token:
  assumes "Archivist_init url au fixtures verify max_time maxlen e0 = (Inr a, e0')"
    and "au = NoAuth \<or> au = Token t"
  shows "auth (a, e) = Some (Inr (self_auth a), a, e)
         \<and> self_auth a = (case au of Token t \<Rightarrow> JStr t | _ \<Rightarrow> JNone)"
  using assms
  by (auto simp: Archivist_init_def ArchivistPublic_init_def auth_def split: if_splits)

theorem auth_plain_token_witness:
  "auth (client (Token ''tok''), fresh_env 1000000 (throttled 0 (ok JNone)))
     = Some (Inr (JStr ''tok''), client (Token ''tok''), fresh_env 1000000 (throttled 0 (ok JNone)))"
  using auth_plain_token [OF client_init [of "Token ''tok''" "fresh_env 0 (throttled 0 (ok JNone))"],
          of "''tok''" "fresh_env 1000000 (throttled 0 (ok JNone))"]
  by (simp add: client_def)

subsection \<open>The bearer header\<close>

lemma add_headers_token:
  "auth s = Some (Inr (JStr t), s1) \<Longrightarrow>
   add_headers hdrs s =
     Some (Inr ((case hdrs of Some h \<Rightarrow> h | None \<Rightarrow> Map.empty)(''authorization'' \<mapsto> ''Bearer '' @ strip t)), s1)"
  by (simp add: add_headers_def)

text \<open>
  C3, as stated, fails: the client holds a token, and the request of a \<open>post\<close> in
  form-encoded mode goes out with no headers at all.
\<close>

theorem post_data_sends_no_bearer:
  "auth (client (Token ''tok''), fresh_env 0 (throttled 0 (ok (JDict Map.empty))))
     = Some (Inr (JStr ''tok''), client (Token ''tok''), fresh_env 0 (throttled 0 (ok (JDict Map.empty))))
   \<and> post ''https://app.rkvst.io/archivist/v2/locations'' (Some [''display_name'' \<mapsto> JStr ''x'']) None True
       (client (Token ''tok''), fresh_env 0 (throttled 0 (ok (JDict Map.empty))))
     = Some (Inr (JDict Map.empty), client (Token ''tok''),
         (fresh_env 0 (throttled 0 (ok (JDict Map.empty))))
           \<lparr>sent := [\<lparr> rq_verb = POST, rq_url = ''https://app.rkvst.io/archivist/v2/locations'',
                     rq_headers = None,
                     rq_payload = FormBody (Some [''display_name'' \<mapsto> JStr ''x'']),
                     rq_verify = True, rq_params = None \<rparr>] \<rparr>)"
  by (simp add: run_defs retry_loop_done)

text \<open>
  C3, amended: when the \<open>auth\<close> property (which fetches a token first if the stored one
  has expired) gives a token string, the request of a \<open>post\<close> in JSON mode, a
  \<open>post_file\<close>, a \<open>delete\<close> or a \<open>patch\<close> carries the header \<open>authorization\<close>
  with \<open>Bearer\<close> and the stripped token, and is the next request after those of the
  access; a \<open>post\<close> in form-encoded mode sends one request without headers and leaves
  the client as it was.
\<close>

theorem bearer_header:
  assumes "auth s = Some (Inr (JStr t), s1)"
  shows "if form_encoded c
         then (\<exists>r e rq. undecorated dotdict ct c s = Some (r, fst s, e)
                 \<and> sent e = sent (snd s) @ [rq] \<and> rq_headers rq = None)
         else (\<exists>r a e rq h. undecorated dotdict ct c s = Some (r, a, e)
                 \<and> sent e = sent (snd s1) @ [rq] \<and> rq_headers rq = Some h
                 \<and> h ''authorization'' = Some (''Bearer '' @ strip t))"
proof (cases c)
  case (Post url request hdrs data)
  show ?thesis
  proof (cases data)
    case True
    obtain a e where s: "s = (a, e)" by (cases s)
    show ?thesis using Post True s
      by (auto simp: post_undecorated_def post_data_def session_send_def split: option.split)
  next
    case False
    obtain a1 e1 where s1: "s1 = (a1, e1)" by (cases s1)
    show ?thesis using Post False s1 add_headers_token [OF assms, of hdrs]
      by (auto simp: post_undecorated_def session_send_def split: option.split)
  qed
next
  case (PostFile url fd mtype form params)
  obtain a1 e1 where s1: "s1 = (a1, e1)" by (cases s1)
  show ?thesis using PostFile s1 add_headers_token [OF assms, of "Some [''content-type'' \<mapsto> ct]"]
    by (auto simp: post_file_undecorated_def session_send_def split: option.split)
next
  case (Delete url hdrs)
  obtain a1 e1 where s1: "s1 = (a1, e1)" by (cases s1)
  show ?thesis using Delete s1 add_headers_token [OF assms, of hdrs]
    by (auto simp: delete_undecorated_def session_send_def split: option.split)
next
  case (Patch url request hdrs)
  obtain a1 e1 where s1: "s1 = (a1, e1)" by (cases s1)
  show ?thesis using Patch s1 add_headers_token [OF assms, of hdrs]
    by (auto simp: patch_undecorated_def session_send_def split: option.split)
qed

theorem bearer_header_witness:
  "(\<exists>r a e rq h.
      undecorated (\<lambda>p. p) ''multipart/form-data'' (Patch ''https://app.rkvst.io/archivist/v2/locations/1'' Map.empty None)
        (client (Machine ''id'' ''secret''), fresh_env 50 (throttled 0 (ok (token_reply 3600))))
        = Some (r, a, e)
      \<and> sent e = [\<lparr> rq_verb = POST, rq_url = ''https://app.rkvst.io/archivist/iam/v1/appidp/token'',
                      rq_headers = None,
                      rq_payload = FormBody (Some [''client_id'' \<mapsto> JStr ''id'',
                                                   ''client_secret'' \<mapsto> JStr ''secret'']),
                      rq_verify = True, rq_params = None \<rparr>, rq]
      \<and> rq_headers rq = Some h \<and> h ''authorization'' = Some ''Bearer tok'')
   \<and> (\<exists>r e rq.
      undecorated (\<lambda>p. p) ''multipart/form-data'' (Post ''https://app.rkvst.io/archivist/v2/locations'' None None True)
        (client (Machine ''id'' ''secret''), fresh_env 50 (throttled 0 (ok (token_reply 3600))))
        = Some (r, client (Machine ''id'' ''secret''), e)
      \<and> sent e = [rq] \<and> rq_headers rq = None)"
  using bearer_header [OF auth_machine_example, of "Patch ''https://app.rkvst.io/archivist/v2/locations/1'' Map.empty None" "\<lambda>p. p" "''multipart/form-data''"]
        bearer_header [OF auth_machine_example, of "Post ''https://app.rkvst.io/archivist/v2/locations'' None None True" "\<lambda>p. p" "''multipart/form-data''"]
  by (simp add: fresh_env_def strip_def isspace_def)

subsection \<open>The ring buffer of responses\<close>

text \<open>
  C4: the claim is right for \<open>patch\<close>, \<open>delete\<close> and \<open>post_file\<close>, which put the
  response at the front of the ring buffer. \<open>post\<close> does not: after a successful
  \<open>post\<close> the buffer is still empty, where the same exchange through \<open>patch\<close> leaves
  the response in it.
\<close>

theorem post_response_not_recorded:
  "post ''https://app.rkvst.io/archivist/v2/locations'' (Some [''display_name'' \<mapsto> JStr ''x'']) None False
       (client (Token ''tok''), fresh_env 0 (throttled 0 (ok (JDict Map.empty))))
     = Some (Inr (JDict Map.empty),
         (client (Token ''tok''))\<lparr>self_response_ring_buffer := []\<rparr>,
         (fresh_env 0 (throttled 0 (ok (JDict Map.empty))))
           \<lparr>sent := [\<lparr> rq_verb = POST, rq_url = ''https://app.rkvst.io/archivist/v2/locations'',
                     rq_headers = Some [''authorization'' \<mapsto> ''Bearer tok''],
                     rq_payload = JsonBody (Some [''display_name'' \<mapsto> JStr ''x'']),
                     rq_verify = True, rq_params = None \<rparr>] \<rparr>)
   \<and> patch ''https://app.rkvst.io/archivist/v2/locations/1'' [''display_name'' \<mapsto> JStr ''x''] None
       (client (Token ''tok''), fresh_env 0 (throttled 0 (ok (JDict Map.empty))))
     = Some (Inr (JDict Map.empty),
         (client (Token ''tok''))\<lparr>self_response_ring_buffer := [ok (JDict Map.empty)]\<rparr>,
         (fresh_env 0 (throttled 0 (ok (JDict Map.empty))))
           \<lparr>sent := [\<lparr> rq_verb = PATCH, rq_url = ''https://app.rkvst.io/archivist/v2/locations/1'',
                     rq_headers = Some [''authorization'' \<mapsto> ''Bearer tok''],
                     rq_payload = JsonBody (Some [''display_name'' \<mapsto> JStr ''x'']),
                     rq_verify = True, rq_params = None \<rparr>] \<rparr>)"
  by (simp add: run_defs retry_loop_done)

subsection \<open>Expiry of the token\<close>




subsection \<open>The retry wrapper against a throttling server\<close>

lemma init_plain_token:
  assumes "Archivist_init url au fixtures verify max_time maxlen e0 = (Inr a, e0')"
    and "au = NoAuth \<or> au = Token t"
  shows "plain_token a"
  using assms
  by (auto simp: Archivist_init_def ArchivistPublic_init_def plain_token_def split: if_splits)

lemma transport_retry: "transport dotdict ct c = retry_429 (undecorated dotdict ct c)"
  by (cases c) (auto simp: post_def post_file_def delete_def patch_def)

lemma add_headers_plain:
  "plain_token a \<Longrightarrow> \<exists>h. add_headers hdrs (a, e) = Some (Inr h, a, e)"
  by (auto simp: plain_token_def add_headers_def auth_def split: json.splits)

lemma attempt_throttled:
  assumes "plain_token a" and "net e = throttled m good"
  shows "\<exists>rq a'. undecorated dotdict ct c (a, e) =
           Some (raise_or_json (if length (sent e) < m then too_many_requests else good), a',
                 e\<lparr>now := now e + elapsed (if length (sent e) < m then too_many_requests else good),
                   sent := sent e @ [rq]\<rparr>)
         \<and> plain_token a' \<and> self_max_time a' = self_max_time a"
proof (cases c)
  case (Post url request hdrs data)
  from add_headers_plain [OF assms(1)] obtain h where "add_headers hdrs (a, e) = Some (Inr h, a, e)"
    by blast
  with Post assms show ?thesis
    by (cases data) (auto simp: post_undecorated_def post_data_def session_send_def throttled_def)
next
  case (PostFile url fd mtype form params)
  from add_headers_plain [OF assms(1)] obtain h where
    "add_headers (Some [''content-type'' \<mapsto> ct]) (a, e) = Some (Inr h, a, e)"
    by blast
  with PostFile assms show ?thesis
    by (auto simp: post_file_undecorated_def session_send_def throttled_def plain_token_def)
next
  case (Delete url hdrs)
  from add_headers_plain [OF assms(1)] obtain h where "add_headers hdrs (a, e) = Some (Inr h, a, e)"
    by blast
  with Delete assms show ?thesis
    by (auto simp: delete_undecorated_def session_send_def throttled_def plain_token_def)
next
  case (Patch url request hdrs)
  from add_headers_plain [OF assms(1)] obtain h where "add_headers hdrs (a, e) = Some (Inr h, a, e)"
    by blast
  with Patch assms show ?thesis
    by (auto simp: patch_undecorated_def session_send_def throttled_def plain_token_def)
qed

lemma raise_too_many: "raise_or_json too_many_requests = Inl (RateLimitError too_many_requests)"
  by (simp add: raise_or_json_def parse_response_def too_many_requests_def)

lemma elapsed_too_many: "elapsed too_many_requests = 0"
  by (simp add: too_many_requests_def)

lemma raise_not_limited: "status_code good \<noteq> 429 \<Longrightarrow> rate_limited (raise_or_json good) = None"
  by (auto simp: raise_or_json_def parse_response_def Let_def split: option.splits)

lemma retry_loop_throttled_ok:
  assumes good: "status_code good \<noteq> 429"
  shows "plain_token a \<Longrightarrow> net e = throttled (length (sent e) + n) good \<Longrightarrow>
         n = 0 \<or> now e - start + 2 * (real n - 1) \<le> self_max_time a \<Longrightarrow>
         \<exists>a' e'. retry_loop (undecorated dotdict ct c) start (a, e) = Some (raise_or_json good, a', e')
            \<and> length (sent e') = length (sent e) + n + 1
            \<and> slept e' = slept e + 2 * real n"
proof (induction n arbitrary: a e)
  case 0
  from attempt_throttled [OF "0.prems"(1), of e "length (sent e)" good dotdict ct c] "0.prems"(2)
  obtain rq a' where att:
    "undecorated dotdict ct c (a, e) =
       Some (raise_or_json good, a', e\<lparr>now := now e + elapsed good, sent := sent e @ [rq]\<rparr>)"
    by auto
  have "retry_loop (undecorated dotdict ct c) start (a, e) =
          Some (raise_or_json good, a', e\<lparr>now := now e + elapsed good, sent := sent e @ [rq]\<rparr>)"
    using att raise_not_limited [OF good] by (rule retry_loop_done)
  then show ?case by auto
next
  case (Suc n)
  from attempt_throttled [OF Suc.prems(1), of e "length (sent e) + Suc n" good dotdict ct c] Suc.prems(2)
  obtain rq a' where att:
    "undecorated dotdict ct c (a, e) =
       Some (Inl (RateLimitError too_many_requests), a', e\<lparr>sent := sent e @ [rq]\<rparr>)"
    and a': "plain_token a'" "self_max_time a' = self_max_time a"
    by (auto simp: raise_too_many elapsed_too_many)
  let ?e1 = "e\<lparr>sent := sent e @ [rq]\<rparr>"
  let ?e2 = "sleep 2 ?e1"
  from Suc.prems(3) have le: "now e - start + 2 * real n \<le> self_max_time a" by simp
  then have "\<not> self_max_time (fst (a', ?e1)) < time (snd (a', ?e1)) - start"
    using a' by (simp add: time_def)
  then have step: "retry_loop (undecorated dotdict ct c) start (a, e) =
              retry_loop (undecorated dotdict ct c) start (a', ?e2)"
    using retry_loop_again [where f = "undecorated dotdict ct c" and s = "(a, e)"
        and rs = too_many_requests and start = start, OF att]
    by (simp add: retry_after_too_many_requests)
  have net: "net ?e2 = throttled (length (sent ?e2) + n) good"
    using Suc.prems(2) by (simp add: sleep_def)
  have "n = 0 \<or> now ?e2 - start + 2 * (real n - 1) \<le> self_max_time a'"
    using le a' by (simp add: sleep_def)
  from Suc.IH [OF a'(1) net this] step show ?case
    by (auto simp: sleep_def)
qed

lemma retry_loop_throttled_giveup:
  "plain_token a \<Longrightarrow> net e = throttled (length (sent e) + n) good \<Longrightarrow> 0 < n \<Longrightarrow>
   self_max_time a < now e - start + 2 * (real n - 1) \<Longrightarrow>
   \<exists>a' e'. retry_loop (undecorated dotdict ct c) start (a, e) =
      Some (Inl (RateLimitError too_many_requests), a', e')"
proof (induction n arbitrary: a e)
  case 0
  then show ?case by simp
next
  case (Suc n)
  from attempt_throttled [OF Suc.prems(1), of e "length (sent e) + Suc n" good dotdict ct c] Suc.prems(2)
  obtain rq a' where att:
    "undecorated dotdict ct c (a, e) =
       Some (Inl (RateLimitError too_many_requests), a', e\<lparr>sent := sent e @ [rq]\<rparr>)"
    and a': "plain_token a'" "self_max_time a' = self_max_time a"
    by (auto simp: raise_too_many elapsed_too_many)
  let ?e1 = "e\<lparr>sent := sent e @ [rq]\<rparr>"
  let ?e2 = "sleep 2 ?e1"
  show ?case
  proof (cases "self_max_time a < now e - start")
    case True
    then have "self_max_time (fst (a', ?e1)) < time (snd (a', ?e1)) - start"
      using a' by (simp add: time_def)
    then have "retry_loop (undecorated dotdict ct c) start (a, e) =
        Some (Inl (RateLimitError too_many_requests), a', ?e1)"
      using retry_loop_giveup [where f = "undecorated dotdict ct c" and s = "(a, e)"
          and rs = too_many_requests and start = start, OF att]
      by simp
    then show ?thesis by blast
  next
    case False
    then have "\<not> self_max_time (fst (a', ?e1)) < time (snd (a', ?e1)) - start"
      using a' by (simp add: time_def)
    then have step: "retry_loop (undecorated dotdict ct c) start (a, e) =
                retry_loop (undecorated dotdict ct c) start (a', ?e2)"
      using retry_loop_again [where f = "undecorated dotdict ct c" and s = "(a, e)"
          and rs = too_many_requests and start = start, OF att]
      by (simp add: retry_after_too_many_requests)
    have net: "net ?e2 = throttled (length (sent ?e2) + n) good"
      using Suc.prems(2) by (simp add: sleep_def)
    from False Suc.prems(4) have n: "0 < n" by (cases n) auto
    have "self_max_time a' < now ?e2 - start + 2 * (real n - 1)"
      using Suc.prems(4) a' by (simp add: sleep_def)
    from Suc.IH [OF a'(1) net n this] step show ?thesis by auto
  qed
qed

text \<open>
  C1: a client with a plain token makes a transport call against a server that answers
  429 with retry-after 2 to the next \<open>n\<close> requests and \<open>good\<close> (not a 429) afterwards,
  the clock advancing by the waits only. If the maximum time is not exceeded while the
  429s arrive (the last of them comes \<open>2 * (n - 1)\<close> seconds after the start), the
  wrapper returns the outcome of \<open>good\<close> after exactly \<open>n + 1\<close> requests, having waited
  \<open>2 * n\<close> seconds; otherwise it raises the RateLimitError of the 429.
\<close>

theorem retry_429_throttled:
  assumes "plain_token a"
    and "net e = throttled (length (sent e) + n) good"
    and "status_code good \<noteq> 429"
  shows "if n = 0 \<or> 2 * (real n - 1) \<le> self_max_time a
         then (\<exists>a' e'. transport dotdict ct c (a, e) = Some (raise_or_json good, a', e')
                 \<and> length (sent e') = length (sent e) + n + 1
                 \<and> slept e' = slept e + 2 * real n)
         else (\<exists>a' e'. transport dotdict ct c (a, e) =
                 Some (Inl (RateLimitError too_many_requests), a', e'))"
proof (cases "n = 0 \<or> 2 * (real n - 1) \<le> self_max_time a")
  case True
  then have "n = 0 \<or> now e - time (snd (a, e)) + 2 * (real n - 1) \<le> self_max_time a"
    by (simp add: time_def)
  from retry_loop_throttled_ok [OF assms(3) assms(1) assms(2) this, of dotdict ct c] True
  show ?thesis by (simp add: transport_retry retry_429_def)
next
  case False
  then have "0 < n" "self_max_time a < now e - time (snd (a, e)) + 2 * (real n - 1)"
    by (auto simp: time_def)
  from retry_loop_throttled_giveup [OF assms(1) assms(2) this, of dotdict ct c] False
  show ?thesis by (simp add: transport_retry retry_429_def)
qed

theorem retry_429_throttled_witness:
  "(\<exists>a' e'. transport (\<lambda>p. p) ''multipart/form-data''
        (Patch ''https://app.rkvst.io/archivist/v2/locations/1'' Map.empty None)
        (client (Token ''tok''), fresh_env 0 (throttled 2 (ok (JDict Map.empty))))
        = Some (Inr (JDict Map.empty), a', e')
      \<and> length (sent e') = 3 \<and> slept e' = 4)
   \<and> (\<exists>a' e'. transport (\<lambda>p. p) ''multipart/form-data''
        (Patch ''https://app.rkvst.io/archivist/v2/locations/1'' Map.empty None)
        ((client (Token ''tok''))\<lparr>self_max_time := 1\<rparr>, fresh_env 0 (throttled 2 (ok (JDict Map.empty))))
        = Some (Inl (RateLimitError too_many_requests), a', e'))"
proof -
  have p: "plain_token (client (Token ''tok''))"
    "plain_token ((client (Token ''tok''))\<lparr>self_max_time := 1\<rparr>)"
    by (simp_all add: plain_token_def client_def)
  have n: "net (fresh_env 0 (throttled 2 (ok (JDict Map.empty)))) =
           throttled (length (sent (fresh_env 0 (throttled 2 (ok (JDict Map.empty))))) + 2) (ok (JDict Map.empty))"
    by (simp add: fresh_env_def eval_nat_numeral)
  have g: "status_code (ok (JDict Map.empty)) \<noteq> 429"
    by (simp add: ok_def)
  have r: "raise_or_json (ok (JDict Map.empty)) = Inr (JDict Map.empty)"
    by (simp add: raise_or_json_def parse_response_def ok_def)
  from retry_429_throttled [OF p(1) n g, of "\<lambda>p. p" "''multipart/form-data''"
         "Patch ''https://app.rkvst.io/archivist/v2/locations/1'' Map.empty None"]
       retry_429_throttled [OF p(2) n g, of "\<lambda>p. p" "''multipart/form-data''"
         "Patch ''https://app.rkvst.io/archivist/v2/locations/1'' Map.empty None"]
  show ?thesis
    by (simp add: r client_def fresh_env_def numeral_3_eq_3)
qed

subsection \<open>The confirmation poller\<close>

lemma confirmation_loop_confirmed:
  "rd identity s = Some (Inr entity, s') \<Longrightarrow> confirmation_status entity = Some CONFIRMED \<Longrightarrow>
   confirmation_loop rd identity start timeout s = Some (Inr entity, s')"
  by (subst confirmation_loop.simps) simp

lemma confirmation_loop_timeout:
  "rd identity s = Some (Inr entity, s') \<Longrightarrow> confirmation_status entity = Some PENDING \<Longrightarrow>
   timeout < time (sleep POLL_INTERVAL (snd s')) - start \<Longrightarrow>
   confirmation_loop rd identity start timeout s =
     Some (Inl ConfirmationTimeoutError, fst s', sleep POLL_INTERVAL (snd s'))"
  by (subst confirmation_loop.simps) simp

lemma confirmation_loop_again:
  "rd identity s = Some (Inr entity, s') \<Longrightarrow> confirmation_status entity = Some PENDING \<Longrightarrow>
   \<not> timeout < time (sleep POLL_INTERVAL (snd s')) - start \<Longrightarrow>
   confirmation_loop rd identity start timeout s =
     confirmation_loop rd identity start timeout (fst s', sleep POLL_INTERVAL (snd s'))"
  by (subst confirmation_loop.simps) simp

lemma get_undecorated_switching:
  assumes "plain_token a" and "net e = switching m first later"
  shows "\<exists>rq a'. get_undecorated url hdrs params (a, e) =
           Some (Inr (if length (sent e) < m then first else later), a', e\<lparr>sent := sent e @ [rq]\<rparr>)
         \<and> plain_token a' \<and> self_max_time a' = self_max_time a \<and> self_root a' = self_root a"
proof -
  from add_headers_plain [OF assms(1)] obtain h where "add_headers hdrs (a, e) = Some (Inr h, a, e)"
    by blast
  with assms show ?thesis
    by (auto simp: get_undecorated_def session_send_def switching_def plain_token_def
        raise_or_json_def parse_response_def ok_def)
qed

lemma read_switching:
  assumes "plain_token a" and "net e = switching m (JDict first) (JDict later)"
  shows "\<exists>rq a'. read identity (a, e) =
           Some (Inr (if length (sent e) < m then first else later), a', e\<lparr>sent := sent e @ [rq]\<rparr>)
         \<and> plain_token a' \<and> self_max_time a' = self_max_time a"
proof -
  let ?url = "locations_subpath a @ ''/'' @ identity"
  from get_undecorated_switching [OF assms, of ?url None None] obtain rq a' where
    att: "get_undecorated ?url None None (a, e) =
           Some (Inr (if length (sent e) < m then JDict first else JDict later), a', e\<lparr>sent := sent e @ [rq]\<rparr>)"
    and a': "plain_token a'" "self_max_time a' = self_max_time a"
    by blast
  have "get ?url None None (a, e) =
          Some (Inr (if length (sent e) < m then JDict first else JDict later), a', e\<lparr>sent := sent e @ [rq]\<rparr>)"
    unfolding get_def retry_429_def using att by (rule retry_loop_done) simp
  then have "read identity (a, e) =
           Some (Inr (if length (sent e) < m then first else later), a', e\<lparr>sent := sent e @ [rq]\<rparr>)"
    by (simp add: read_def)
  with a' show ?thesis by blast
qed

lemma confirmation_loop_switching_ok:
  assumes pend: "confirmation_status pending = Some PENDING"
    and conf: "confirmation_status confirmed = Some CONFIRMED"
  shows "plain_token a \<Longrightarrow> net e = switching (length (sent e) + k) (JDict pending) (JDict confirmed) \<Longrightarrow>
         k = 0 \<or> now e - start + real k * POLL_INTERVAL \<le> timeout \<Longrightarrow>
         \<exists>a' e'. confirmation_loop read identity start timeout (a, e) = Some (Inr confirmed, a', e')
            \<and> length (sent e') = length (sent e) + k + 1"
proof (induction k arbitrary: a e)
  case 0
  from read_switching [OF "0.prems"(1), of e "length (sent e)" pending confirmed identity] "0.prems"(2)
  obtain rq a' where rd: "read identity (a, e) = Some (Inr confirmed, a', e\<lparr>sent := sent e @ [rq]\<rparr>)"
    by auto
  have "confirmation_loop read identity start timeout (a, e) =
          Some (Inr confirmed, a', e\<lparr>sent := sent e @ [rq]\<rparr>)"
    using rd conf by (rule confirmation_loop_confirmed)
  then show ?case by auto
next
  case (Suc k)
  from read_switching [OF Suc.prems(1), of e "length (sent e) + Suc k" pending confirmed identity] Suc.prems(2)
  obtain rq a' where rd: "read identity (a, e) = Some (Inr pending, a', e\<lparr>sent := sent e @ [rq]\<rparr>)"
    and a': "plain_token a'"
    by auto
  let ?e1 = "e\<lparr>sent := sent e @ [rq]\<rparr>"
  let ?e2 = "sleep POLL_INTERVAL ?e1"
  from Suc.prems(3) have le: "now e - start + (real k + 1) * POLL_INTERVAL \<le> timeout"
    by (simp add: algebra_simps)
  then have "\<not> timeout < time (sleep POLL_INTERVAL (snd (a', ?e1))) - start"
    by (simp add: time_def sleep_def POLL_INTERVAL_def)
  then have step: "confirmation_loop read identity start timeout (a, e) =
                   confirmation_loop read identity start timeout (a', ?e2)"
    using confirmation_loop_again [where rd = read and s = "(a, e)" and start = start, OF rd pend]
    by simp
  have net: "net ?e2 = switching (length (sent ?e2) + k) (JDict pending) (JDict confirmed)"
    using Suc.prems(2) by (simp add: sleep_def)
  have "k = 0 \<or> now ?e2 - start + real k * POLL_INTERVAL \<le> timeout"
    using le by (simp add: sleep_def POLL_INTERVAL_def)
  from Suc.IH [OF a' net this] step show ?case
    by (auto simp: sleep_def)
qed

lemma confirmation_loop_switching_timeout:
  assumes pend: "confirmation_status pending = Some PENDING"
  shows "plain_token a \<Longrightarrow> net e = switching (length (sent e) + k) (JDict pending) (JDict confirmed) \<Longrightarrow>
         0 < k \<Longrightarrow> timeout < now e - start + real k * POLL_INTERVAL \<Longrightarrow>
         \<exists>a' e'. confirmation_loop read identity start timeout (a, e) =
              Some (Inl ConfirmationTimeoutError, a', e')
            \<and> length (sent e') \<le> length (sent e) + k"
proof (induction k arbitrary: a e)
  case 0
  then show ?case by simp
next
  case (Suc k)
  from read_switching [OF Suc.prems(1), of e "length (sent e) + Suc k" pending confirmed identity] Suc.prems(2)
  obtain rq a' where rd: "read identity (a, e) = Some (Inr pending, a', e\<lparr>sent := sent e @ [rq]\<rparr>)"
    and a': "plain_token a'"
    by auto
  let ?e1 = "e\<lparr>sent := sent e @ [rq]\<rparr>"
  let ?e2 = "sleep POLL_INTERVAL ?e1"
  show ?case
  proof (cases "timeout < now e + 1 - start")
    case True
    then have "timeout < time (sleep POLL_INTERVAL (snd (a', ?e1))) - start"
      by (simp add: time_def sleep_def POLL_INTERVAL_def)
    then have "confirmation_loop read identity start timeout (a, e) =
                 Some (Inl ConfirmationTimeoutError, a', ?e2)"
      using confirmation_loop_timeout [where rd = read and s = "(a, e)" and start = start, OF rd pend]
      by simp
    then show ?thesis by (auto simp: sleep_def)
  next
    case False
    then have "\<not> timeout < time (sleep POLL_INTERVAL (snd (a', ?e1))) - start"
      by (simp add: time_def sleep_def POLL_INTERVAL_def)
    then have step: "confirmation_loop read identity start timeout (a, e) =
                     confirmation_loop read identity start timeout (a', ?e2)"
      using confirmation_loop_again [where rd = read and s = "(a, e)" and start = start, OF rd pend]
      by simp
    have net: "net ?e2 = switching (length (sent ?e2) + k) (JDict pending) (JDict confirmed)"
      using Suc.prems(2) by (simp add: sleep_def)
    from False Suc.prems(4) have k: "0 < k" by (cases k) (auto simp: POLL_INTERVAL_def)
    have "timeout < now ?e2 - start + real k * POLL_INTERVAL"
      using Suc.prems(4) by (simp add: sleep_def POLL_INTERVAL_def algebra_simps)
    from Suc.IH [OF a' net k this] step show ?thesis
      by (auto simp: sleep_def)
  qed
qed

text \<open>
  C2: a client with a plain token waits for the confirmation of an entity that the server
  shows PENDING to the next \<open>k\<close> reads and CONFIRMED afterwards. If the \<open>k\<close> waits fit
  into the timeout, \<open>wait_for_confirmation\<close> returns the CONFIRMED entity after exactly
  \<open>k + 1\<close> reads (each read is one request); otherwise it fails with
  ConfirmationTimeoutError, having read at most \<open>k\<close> times.
\<close>

theorem wait_for_confirmation_switching:
  assumes "plain_token a"
    and "net e = switching (length (sent e) + k) (JDict pending) (JDict confirmed)"
    and "confirmation_status pending = Some PENDING"
    and "confirmation_status confirmed = Some CONFIRMED"
  shows "if k = 0 \<or> real k * POLL_INTERVAL \<le> (case timeout of None \<Rightarrow> self_max_time a | Some t \<Rightarrow> t)
         then (\<exists>a' e'. wait_for_confirmation read identity timeout (a, e) = Some (Inr confirmed, a', e')
                 \<and> length (sent e') = length (sent e) + k + 1)
         else (\<exists>a' e'. wait_for_confirmation read identity timeout (a, e) =
                   Some (Inl ConfirmationTimeoutError, a', e')
                 \<and> length (sent e') \<le> length (sent e) + k)"
proof (cases "k = 0 \<or> real k * POLL_INTERVAL \<le> (case timeout of None \<Rightarrow> self_max_time a | Some t \<Rightarrow> t)")
  case True
  then have "k = 0 \<or> now e - time (snd (a, e)) + real k * POLL_INTERVAL
                \<le> (case timeout of None \<Rightarrow> self_max_time a | Some t \<Rightarrow> t)"
    by (simp add: time_def)
  from confirmation_loop_switching_ok [OF assms(3) assms(4) assms(1) assms(2) this, of identity] True
  show ?thesis by (cases timeout) (simp_all add: wait_for_confirmation_def)
next
  case False
  then have "0 < k" "(case timeout of None \<Rightarrow> self_max_time a | Some t \<Rightarrow> t)
                 < now e - time (snd (a, e)) + real k * POLL_INTERVAL"
    by (auto simp: time_def)
  from confirmation_loop_switching_timeout [OF assms(3) assms(1) assms(2) this, of identity] False
  show ?thesis by (cases timeout) (simp_all add: wait_for_confirmation_def)
qed

theorem wait_for_confirmation_switching_witness:
  "(\<exists>a' e'. wait_for_confirmation read ''assets/1'' None
        (client (Token ''tok''), fresh_env 0 (switching 2 (JDict pending_asset) (JDict confirmed_asset)))
        = Some (Inr confirmed_asset, a', e')
      \<and> length (sent e') = 3)
   \<and> (\<exists>a' e'. wait_for_confirmation read ''assets/1'' (Some 1)
        (client (Token ''tok''), fresh_env 0 (switching 2 (JDict pending_asset) (JDict confirmed_asset)))
        = Some (Inl ConfirmationTimeoutError, a', e')
      \<and> length (sent e') \<le> 2)"
proof -
  have p: "plain_token (client (Token ''tok''))"
    by (simp add: plain_token_def client_def)
  have n: "net (fresh_env 0 (switching 2 (JDict pending_asset) (JDict confirmed_asset))) =
           switching (length (sent (fresh_env 0 (switching 2 (JDict pending_asset) (JDict confirmed_asset)))) + 2)
             (JDict pending_asset) (JDict confirmed_asset)"
    by (simp add: fresh_env_def eval_nat_numeral)
  have s: "confirmation_status pending_asset = Some PENDING"
    "confirmation_status confirmed_asset = Some CONFIRMED"
    by (simp_all add: confirmation_status_def pending_asset_def confirmed_asset_def
        CONFIRMATION_STATUS_def CONFIRMATION_PENDING_def CONFIRMATION_CONFIRMED_def)
  from wait_for_confirmation_switching [OF p n s, of None "''assets/1''"]
       wait_for_confirmation_switching [OF p n s, of "Some 1" "''assets/1''"]
  show ?thesis
    by (simp add: client_def fresh_env_def POLL_INTERVAL_def numeral_3_eq_3 numeral_2_eq_2)
qed

subsection \<open>Create and read\<close>






subsection \<open>Create if not exists\<close>

text \<open>
  C10: for a dictionary object \<open>data\<close> that has the key \<open>selector\<close>, whatever
  \<open>create_if_not_exists\<close> returns, every dictionary object that existed before the call
  is unchanged, and \<open>data\<close> still has its selector; when the lookup by signature finds a
  location the method returns it with \<open>True\<close> in the state the lookup left (nothing was
  created); when the lookup raises the not-found error and the creation from the copy
  without selector succeeds, the method returns the created location with \<open>False\<close>.
\<close>

theorem create_if_not_exists_frame:
  assumes "data < length h"
    and "(h ! data) ''selector'' = Some selector"
    and "selector_signature selector ((h ! data)(''selector'' := None)) = (props, attrs)"
  shows "(create_if_not_exists selector_signature deepmerge get_by_signature data (h, s) = Some (r, h', s')
            \<longrightarrow> (\<forall>p < length h. h' ! p = h ! p) \<and> (h' ! data) ''selector'' = Some selector)
       \<and> (read_by_signature deepmerge get_by_signature props attrs s = Some (Inr location, s1)
            \<longrightarrow> (\<exists>h''. create_if_not_exists selector_signature deepmerge get_by_signature data (h, s)
                        = Some (Inr (location, True), h'', s1)))
       \<and> (read_by_signature deepmerge get_by_signature props attrs s = Some (Inl (NotFoundError x), s1)
            \<and> create_from_data ((h ! data)(''selector'' := None)) s1 = Some (Inr created, s2)
            \<longrightarrow> (\<exists>h''. create_if_not_exists selector_signature deepmerge get_by_signature data (h, s)
                        = Some (Inr (created, False), h'', s2)))"
  using assms
  by (auto simp: create_if_not_exists_def deepcopy_def dict_pop_def nth_append
           split: option.splits prod.splits sum.splits error.splits)

lemma create_example2:
  "create_from_data (request_data(''selector'' := None))
       (client (Token ''tok''), fresh_env 0 (throttled 0 (ok (JDict gare_du_nord))))
     = Some (Inr gare_du_nord, client (Token ''tok''),
         (fresh_env 0 (throttled 0 (ok (JDict gare_du_nord))))
          \<lparr>sent := [\<lparr> rq_verb = POST, rq_url = ''https://app.rkvst.io/archivist/v2/locations'',
                     rq_headers = Some [''authorization'' \<mapsto> ''Bearer tok''],
                     rq_payload = JsonBody (Some (request_data(''selector'' := None))),
                     rq_verify = True, rq_params = None \<rparr>] \<rparr>)"
  by (simp add: create_from_data_def locations_label_def locations_subpath_def
      LOCATIONS_LABEL_def LOCATIONS_SUBPATH_def run_defs retry_loop_done)

theorem create_if_not_exists_frame_witness:
  "(\<exists>h'. create_if_not_exists by_display_name keep_params lookup_found 0
        ([request_data], client (Token ''tok''), fresh_env 0 (throttled 0 (ok (JDict gare_du_nord))))
      = Some (Inr (gare_du_nord, True), h',
              client (Token ''tok''), fresh_env 0 (throttled 0 (ok (JDict gare_du_nord))))
      \<and> h' ! 0 = request_data \<and> (h' ! 0) ''selector'' = Some (JList [JStr ''display_name'']))
   \<and> (\<exists>h'. create_if_not_exists by_display_name keep_params lookup_missing 0
        ([request_data], client (Token ''tok''), fresh_env 0 (throttled 0 (ok (JDict gare_du_nord))))
      = Some (Inr (gare_du_nord, False), h', client (Token ''tok''),
         (fresh_env 0 (throttled 0 (ok (JDict gare_du_nord))))
          \<lparr>sent := [\<lparr> rq_verb = POST, rq_url = ''https://app.rkvst.io/archivist/v2/locations'',
                     rq_headers = Some [''authorization'' \<mapsto> ''Bearer tok''],
                     rq_payload = JsonBody (Some (request_data(''selector'' := None))),
                     rq_verify = True, rq_params = None \<rparr>] \<rparr>)
      \<and> h' ! 0 = request_data)"
proof -
  let ?s = "(client (Token ''tok''), fresh_env 0 (throttled 0 (ok (JDict gare_du_nord))))"
  let ?copy = "request_data(''selector'' := None)"
  have d: "0 < length [request_data]" by simp
  have sel: "([request_data] ! 0) ''selector'' = Some (JList [JStr ''display_name''])"
    by (simp add: request_data_def)
  have sig: "by_display_name (JList [JStr ''display_name'']) (([request_data] ! 0)(''selector'' := None))
               = (Some [''display_name'' \<mapsto> JStr ''Gare du Nord''], None)"
    by (simp add: by_display_name_def request_data_def dict_get_def)
  have found: "read_by_signature keep_params lookup_found (Some [''display_name'' \<mapsto> JStr ''Gare du Nord'']) None ?s
                 = Some (Inr gare_du_nord, ?s)"
    by (simp add: read_by_signature_def lookup_found_def)
  have missing: "read_by_signature keep_params lookup_missing (Some [''display_name'' \<mapsto> JStr ''Gare du Nord'']) None ?s
                 = Some (Inl (NotFoundError None), ?s)"
    by (simp add: read_by_signature_def lookup_missing_def)
  note t1 = create_if_not_exists_frame [where data = 0 and h = "[request_data]"
      and selector = "JList [JStr ''display_name'']" and selector_signature = by_display_name
      and props = "Some [''display_name'' \<mapsto> JStr ''Gare du Nord'']" and attrs = None
      and deepmerge = keep_params
      and get_by_signature = lookup_found and s = ?s and location = gare_du_nord and ?s1.0 = ?s,
      OF d sel sig]
  note t2 = create_if_not_exists_frame [where data = 0 and h = "[request_data]"
      and selector = "JList [JStr ''display_name'']" and selector_signature = by_display_name
      and props = "Some [''display_name'' \<mapsto> JStr ''Gare du Nord'']" and attrs = None
      and deepmerge = keep_params
      and get_by_signature = lookup_missing and s = ?s and x = None and ?s1.0 = ?s
      and created = gare_du_nord, OF d sel sig]
  from t1 [THEN conjunct2, THEN conjunct1] found obtain h1 where
    h1: "create_if_not_exists by_display_name keep_params lookup_found 0 ([request_data], ?s)
           = Some (Inr (gare_du_nord, True), h1, ?s)" by blast
  from t1 [where r = "Inr (gare_du_nord, True)" and h' = h1 and s' = ?s, THEN conjunct1] h1
  have f1: "h1 ! 0 = request_data" "(h1 ! 0) ''selector'' = Some (JList [JStr ''display_name''])"
    by (simp_all add: request_data_def)
  from t2 [THEN conjunct2, THEN conjunct2] missing create_example2 obtain h2 where
    h2: "create_if_not_exists by_display_name keep_params lookup_missing 0 ([request_data], ?s)
           = Some (Inr (gare_du_nord, False), h2, client (Token ''tok''),
         (fresh_env 0 (throttled 0 (ok (JDict gare_du_nord))))
          \<lparr>sent := [\<lparr> rq_verb = POST, rq_url = ''https://app.rkvst.io/archivist/v2/locations'',
                     rq_headers = Some [''authorization'' \<mapsto> ''Bearer tok''],
                     rq_payload = JsonBody (Some (request_data(''selector'' := None))),
                     rq_verify = True, rq_params = None \<rparr>] \<rparr>)" by auto
  from create_if_not_exists_frame [where data = 0 and h = "[request_data]"
      and selector = "JList [JStr ''display_name'']" and selector_signature = by_display_name
      and props = "Some [''display_name'' \<mapsto> JStr ''Gare du Nord'']" and attrs = None
      and deepmerge = keep_params
      and get_by_signature = lookup_missing and s = ?s and r = "Inr (gare_du_nord, False)"
      and h' = h2, OF d sel sig, THEN conjunct1] h2
  have f2: "h2 ! 0 = request_data" by simp
  from h1 f1 h2 f2 show ?thesis by blast
qed

end
